theory Spec2Isabelle
  imports
    Main
    "HOL-Library.Finite_Map"
    "HOL-Library.Multiset"
    "HOL-Library.Char_ord"
    "HOL-Library.List_Lexorder"
    "HOL-Library.Product_Lexorder"
begin

section \<open>Clonal CNV profiles (sccnvsim/utils/xcnv.py)\<close>

text \<open>
  Python integers are unbounded, so coordinates and copy numbers are \<^typ>\<open>int\<close>.
  Python strings are compared by code point; \<^typ>\<open>string\<close> with the lexicographic
  order of \<open>List_Lexorder\<close> over \<open>Char_ord\<close> compares the same way.
  Parameters carry a prime where the source name is also an attribute name
  (\<open>chrom'\<close> is the parameter \<open>chrom\<close>); the attribute \<open>end\<close> is \<open>end_pos\<close>.
\<close>

subsection \<open>Data\<close>

text \<open>
  \<open>class CNVRegCN(Region)\<close>: the attributes set by \<open>CNVRegCN.__init__\<close> and by
  \<open>Region.__init__(chrom, start, end, name)\<close>.

  Modelled from the spec: \<open>Region.__init__\<close> lives in utils/grange.py, which is not
  among the sources. Spec section 3 describes a region as \<open>chrom\<close> (an opaque string),
  \<open>start\<close> (inclusive), \<open>end\<close> (stored exclusive) and \<open>name\<close>; the constructor is
  taken to store its four arguments as given.
\<close>

record CNVRegCN =
  chrom :: string
  start :: int
  end_pos :: int
  name :: string
  cn_ale0 :: int
  cn_ale1 :: int

definition CNVRegCN_init :: "string \<Rightarrow> int \<Rightarrow> int \<Rightarrow> string \<Rightarrow> int \<Rightarrow> int \<Rightarrow> CNVRegCN" where
  "CNVRegCN_init chrom' start' end' name' cn_ale0' cn_ale1' =
     \<lparr>chrom = chrom', start = start', end_pos = end', name = name',
      cn_ale0 = cn_ale0', cn_ale1 = cn_ale1'\<rparr>"

subsection \<open>RegionSet (utils/grange.py)\<close>

text \<open>
  Modelled from the spec: class \<open>RegionSet\<close> of utils/grange.py is not among the
  sources. Spec section 4.1 (IntervalRegionSet) gives its contract; "a flat linear scan is
  correctness-sufficient", so the set is the list of its members in insertion order.
\<close>

type_synonym RegionSet = "CNVRegCN list"

definition RegionSet_init :: RegionSet where
  "RegionSet_init = []"

text \<open>
  Modelled from the spec: the duplicate key of \<open>RegionSet.add\<close>, "the full tuple
  (chrom, start, end, name)" (section 3).
\<close>

definition same_region :: "CNVRegCN \<Rightarrow> CNVRegCN \<Rightarrow> bool" where
  "same_region a b \<longleftrightarrow>
     chrom a = chrom b \<and> start a = start b \<and> end_pos a = end_pos b \<and> name a = name b"

text \<open>
  Modelled from the spec: the coordinate constraint of \<open>RegionSet.add\<close>,
  "region.start < region.end, region.start >= 1" (section 4.1).
\<close>

definition valid_region :: "CNVRegCN \<Rightarrow> bool" where
  "valid_region reg \<longleftrightarrow> start reg < end_pos reg \<and> 1 \<le> start reg"

text \<open>
  Modelled from the spec: \<open>RegionSet.add\<close> (section 4.1, insert). The outcome is 0
  (Inserted), 1 (DuplicateRejected) or -1 (Invalid), the return codes documented in
  \<open>CNVProfile.add_cnv\<close>. "Invalid fires when the coordinate constraint is violated; no
  mutation occurs"; "DuplicateRejected fires when an existing member has identical
  (chrom, start, end, name); the new record is discarded without mutating the set".
  The function returns the code and the set after the call.
\<close>

definition RegionSet_add :: "RegionSet \<Rightarrow> CNVRegCN \<Rightarrow> int \<times> RegionSet" where
  "RegionSet_add self region =
     (if \<not> valid_region region then (- 1, self)
      else if list_ex (\<lambda>m. same_region m region) self then (1, self)
      else (0, self @ [region]))"

text \<open>
  Modelled from the spec: \<open>RegionSet.fetch\<close> (section 4.1, overlaps): "every member whose
  chromosome equals chrom and whose half-open interval intersects [query_start, query_end)
  (non-empty intersection: member.start < query_end AND query_start < member.end)", and
  section 8: "no overlap with a zero-length query, per the half-open rule". The two
  half-open intervals intersect when their common part, from the larger start to the
  smaller end, is not empty. For a member with \<open>start < end\<close> and a query with
  \<open>query_start < query_end\<close> this is the test in the parentheses; a zero-length query
  meets no member.
\<close>

definition RegionSet_fetch :: "RegionSet \<Rightarrow> string \<Rightarrow> int \<Rightarrow> int \<Rightarrow> CNVRegCN list" where
  "RegionSet_fetch self chrom' start' end' =
     filter (\<lambda>m. chrom m = chrom' \<and> max (start m) start' < min (end_pos m) end') self"

text \<open>
  Modelled from the spec: \<open>RegionSet.query\<close> (section 4.1, byName): "all members whose
  name field equals the query exactly".
\<close>

definition RegionSet_query :: "RegionSet \<Rightarrow> string \<Rightarrow> CNVRegCN list" where
  "RegionSet_query self name' = filter (\<lambda>m. name m = name') self"

text \<open>
  Modelled from the spec: \<open>RegionSet.get_regions(sort)\<close> (section 4.1, allSorted): "every
  member ordered by (chrom, start) ascending; chromosome ordering is lexical on the raw
  string". The sort is stable, as Python's is.
\<close>

definition RegionSet_get_regions :: "RegionSet \<Rightarrow> bool \<Rightarrow> CNVRegCN list" where
  "RegionSet_get_regions self sort' =
     (if sort' then sort_key (\<lambda>m. (chrom m, start m)) self else self)"

subsection \<open>CNVProfile: the CNV profile of one clone\<close>

record CNVProfile =
  rs :: RegionSet

definition CNVProfile_init :: CNVProfile where
  "CNVProfile_init = \<lparr>rs = RegionSet_init\<rparr>"

text \<open>\<open>CNVProfile.add_cnv\<close> returns the code of \<open>self.rs.add(reg)\<close>; the profile after
  the call is returned with it.\<close>

definition CNVProfile_add_cnv ::
  "CNVProfile \<Rightarrow> string \<Rightarrow> int \<Rightarrow> int \<Rightarrow> string \<Rightarrow> int \<Rightarrow> int \<Rightarrow> int \<times> CNVProfile" where
  "CNVProfile_add_cnv self chrom' start' end' name' cn_ale0' cn_ale1' =
     (let reg = CNVRegCN_init chrom' start' end' name' cn_ale0' cn_ale1';
          (ret, rs') = RegionSet_add (rs self) reg
      in (ret, self\<lparr>rs := rs'\<rparr>))"

definition CNVProfile_fetch ::
  "CNVProfile \<Rightarrow> string \<Rightarrow> int \<Rightarrow> int \<Rightarrow> int \<times> (int \<times> int \<times> string) list" where
  "CNVProfile_fetch self chrom' start' end' =
     (let hits = RegionSet_fetch (rs self) chrom' start' end';
          res = map (\<lambda>reg. (cn_ale0 reg, cn_ale1 reg, name reg)) hits
      in (int (length res), res))"

definition CNVProfile_query ::
  "CNVProfile \<Rightarrow> string \<Rightarrow> int \<times> (int \<times> int \<times> string) list" where
  "CNVProfile_query self name' =
     (let hits = RegionSet_query (rs self) name';
          res = map (\<lambda>reg. (cn_ale0 reg, cn_ale1 reg, name reg)) hits
      in (int (length res), res))"

text \<open>The dictionary of column lists built by \<open>CNVProfile.get_all\<close>.\<close>

record profile_dat =
  dat_chrom :: "string list"
  dat_start :: "int list"
  dat_end :: "int list"
  dat_name :: "string list"
  dat_cn_ale0 :: "int list"
  dat_cn_ale1 :: "int list"

text \<open>The body of \<open>for reg in reg_list\<close>: one append to each column.\<close>

fun get_all_loop :: "CNVRegCN list \<Rightarrow> profile_dat \<Rightarrow> profile_dat" where
  "get_all_loop [] d = d"
| "get_all_loop (reg # reg_list) d =
     get_all_loop reg_list
       \<lparr>dat_chrom = dat_chrom d @ [chrom reg],
        dat_start = dat_start d @ [start reg],
        dat_end = dat_end d @ [end_pos reg - 1],
        dat_name = dat_name d @ [name reg],
        dat_cn_ale0 = dat_cn_ale0 d @ [cn_ale0 reg],
        dat_cn_ale1 = dat_cn_ale1 d @ [cn_ale1 reg]\<rparr>"

definition CNVProfile_get_all :: "CNVProfile \<Rightarrow> profile_dat" where
  "CNVProfile_get_all self =
     (let reg_list = RegionSet_get_regions (rs self) True
      in get_all_loop reg_list
           \<lparr>dat_chrom = [], dat_start = [], dat_end = [], dat_name = [],
            dat_cn_ale0 = [], dat_cn_ale1 = []\<rparr>)"

subsection \<open>CloneCNVProfile: the CNV profiles of all clones\<close>

text \<open>\<open>self.dat\<close> is a dictionary from clone IDs to profiles: a finite map.\<close>

record CloneCNVProfile =
  dat :: "(string, CNVProfile) fmap"

definition CloneCNVProfile_init :: CloneCNVProfile where
  "CloneCNVProfile_init = \<lparr>dat = fmempty\<rparr>"

datatype py_error = KeyError

text \<open>
  \<open>CloneCNVProfile.add_cnv\<close>: a missing clone gets a fresh \<open>CNVProfile()\<close> first, whatever
  the insertion then returns; \<open>cp = self.dat[clone_id]\<close> is that entry, and
  \<open>cp.add_cnv\<close> updates it in place. The lookup cannot raise KeyError, the key is in
  the dictionary by then (lemma \<open>add_cnv_entry_present\<close>): the \<open>None\<close> case below is
  never taken.
\<close>

definition CloneCNVProfile_add_cnv ::
  "CloneCNVProfile \<Rightarrow> string \<Rightarrow> int \<Rightarrow> int \<Rightarrow> string \<Rightarrow> int \<Rightarrow> int \<Rightarrow> string
     \<Rightarrow> int \<times> CloneCNVProfile" where
  "CloneCNVProfile_add_cnv self chrom' start' end' name' cn_ale0' cn_ale1' clone_id =
     (let dat1 = (if clone_id |\<notin>| fmdom (dat self)
                  then fmupd clone_id CNVProfile_init (dat self) else dat self);
          cp = (case fmlookup dat1 clone_id of Some p \<Rightarrow> p | None \<Rightarrow> CNVProfile_init);
          (ret, cp') = CNVProfile_add_cnv cp chrom' start' end' name' cn_ale0' cn_ale1'
      in (ret, self\<lparr>dat := fmupd clone_id cp' dat1\<rparr>))"

definition CloneCNVProfile_fetch ::
  "CloneCNVProfile \<Rightarrow> string \<Rightarrow> int \<Rightarrow> int \<Rightarrow> string \<Rightarrow> int \<times> (int \<times> int \<times> string) list" where
  "CloneCNVProfile_fetch self chrom' start' end' clone_id =
     (case fmlookup (dat self) clone_id of
        Some cp \<Rightarrow> (let (ret, hits) = CNVProfile_fetch cp chrom' start' end' in (ret, hits))
      | None \<Rightarrow> (0, []))"

definition CloneCNVProfile_query ::
  "CloneCNVProfile \<Rightarrow> string \<Rightarrow> string \<Rightarrow> int \<times> (int \<times> int \<times> string) list" where
  "CloneCNVProfile_query self name' clone_id =
     (case fmlookup (dat self) clone_id of
        Some cp \<Rightarrow> (let (ret, hits) = CNVProfile_query cp name' in (ret, hits))
      | None \<Rightarrow> (0, []))"

definition CloneCNVProfile_get_clones :: "CloneCNVProfile \<Rightarrow> string list" where
  "CloneCNVProfile_get_clones self = sorted_list_of_fset (fmdom (dat self))"

text \<open>The dictionary of column lists built by \<open>CloneCNVProfile.get_all\<close>.\<close>

record clone_dat =
  all_clone :: "string list"
  all_chrom :: "string list"
  all_start :: "int list"
  all_end :: "int list"
  all_name :: "string list"
  all_cn_ale0 :: "int list"
  all_cn_ale1 :: "int list"

text \<open>
  The body of \<open>for clone_id in sorted(self.dat.keys())\<close>. \<open>self.dat[clone_id]\<close> raises
  KeyError on a missing key.
\<close>

fun clone_get_all_loop ::
  "CloneCNVProfile \<Rightarrow> string list \<Rightarrow> clone_dat \<Rightarrow> py_error + clone_dat" where
  "clone_get_all_loop self [] dat_list = Inr dat_list"
| "clone_get_all_loop self (clone_id # clone_ids) dat_list =
     (case fmlookup (dat self) clone_id of
        None \<Rightarrow> Inl KeyError
      | Some cp \<Rightarrow>
          (let cp_dat = CNVProfile_get_all cp;
               n = length (dat_chrom cp_dat)
           in clone_get_all_loop self clone_ids
                \<lparr>all_clone = all_clone dat_list @ replicate n clone_id,
                 all_chrom = all_chrom dat_list @ dat_chrom cp_dat,
                 all_start = all_start dat_list @ dat_start cp_dat,
                 all_end = all_end dat_list @ dat_end cp_dat,
                 all_name = all_name dat_list @ dat_name cp_dat,
                 all_cn_ale0 = all_cn_ale0 dat_list @ dat_cn_ale0 cp_dat,
                 all_cn_ale1 = all_cn_ale1 dat_list @ dat_cn_ale1 cp_dat\<rparr>))"

definition CloneCNVProfile_get_all :: "CloneCNVProfile \<Rightarrow> py_error + clone_dat" where
  "CloneCNVProfile_get_all self =
     clone_get_all_loop self (sorted_list_of_fset (fmdom (dat self)))
       \<lparr>all_clone = [], all_chrom = [], all_start = [], all_end = [], all_name = [],
        all_cn_ale0 = [], all_cn_ale1 = []\<rparr>"

subsection \<open>Loading and saving\<close>




text \<open>
  \<open>save_cnv_profile\<close>: the fields of the line written for each \<open>i\<close> in
  \<open>range(len(cp["chrom"]))\<close>, in the order of the file (chrom, start, end, name, clone,
  cn_ale0, cn_ale1), before they are turned into text and joined by tabs.
\<close>

type_synonym cnv_line = "string \<times> int \<times> int \<times> string \<times> string \<times> int \<times> int"

definition save_line :: "clone_dat \<Rightarrow> nat \<Rightarrow> cnv_line" where
  "save_line cp i =
     (all_chrom cp ! i, all_start cp ! i, all_end cp ! i, all_name cp ! i,
      all_clone cp ! i, all_cn_ale0 cp ! i, all_cn_ale1 cp ! i)"

definition save_lines :: "clone_dat \<Rightarrow> cnv_line list" where
  "save_lines cp = map (save_line cp) [0 ..< length (all_chrom cp)]"

definition save_cnv_profile :: "CloneCNVProfile \<Rightarrow> py_error + cnv_line list" where
  "save_cnv_profile d =
     (case CloneCNVProfile_get_all d of
        Inl e \<Rightarrow> Inl e
      | Inr cp \<Rightarrow> Inr (save_lines cp))"

subsection \<open>Notions used in the statements\<close>

text \<open>The profile that \<open>CloneCNVProfile.add_cnv\<close> works on: the clone's entry, or the
  fresh \<open>CNVProfile()\<close> a missing clone gets.\<close>

definition clone_profile :: "CloneCNVProfile \<Rightarrow> string \<Rightarrow> CNVProfile" where
  "clone_profile self clone_id =
     (case fmlookup (dat self) clone_id of Some p \<Rightarrow> p | None \<Rightarrow> CNVProfile_init)"

text \<open>The states a profile can be in: a fresh \<open>CNVProfile()\<close>, and whatever \<open>add_cnv\<close>
  calls make of it (the class has no other mutator).\<close>

inductive CNVProfile_reachable :: "CNVProfile \<Rightarrow> bool" where
  reach_init: "CNVProfile_reachable CNVProfile_init"
| reach_add: "CNVProfile_reachable cp \<Longrightarrow>
     CNVProfile_reachable (snd (CNVProfile_add_cnv cp c s e n a0 a1))"

text \<open>A sequence of \<open>CloneCNVProfile.add_cnv\<close> calls, given by their arguments, and the
  clone ID of a call.\<close>

type_synonym add_cnv_args = "string \<times> int \<times> int \<times> string \<times> int \<times> int \<times> string"

fun add_cnv_calls :: "CloneCNVProfile \<Rightarrow> add_cnv_args list \<Rightarrow> CloneCNVProfile" where
  "add_cnv_calls self [] = self"
| "add_cnv_calls self ((c, s, e, n, a0, a1, clone_id) # calls) =
     add_cnv_calls (snd (CloneCNVProfile_add_cnv self c s e n a0 a1 clone_id)) calls"

fun call_clone :: "add_cnv_args \<Rightarrow> string" where
  "call_clone (c, s, e, n, a0, a1, clone_id) = clone_id"


definition sorted_regions :: "CloneCNVProfile \<Rightarrow> string \<Rightarrow> CNVRegCN list" where
  "sorted_regions self clone_id =
     RegionSet_get_regions (rs (clone_profile self clone_id)) True"

definition export_pairs :: "CloneCNVProfile \<Rightarrow> string list \<Rightarrow> (string \<times> CNVRegCN) list" where
  "export_pairs self clone_ids =
     concat (map (\<lambda>k. map (Pair k) (sorted_regions self k)) clone_ids)"


text \<open>The columns and the line that a clone and a stored region give: the end is written
  inclusive.\<close>

definition table_of :: "(string \<times> CNVRegCN) list \<Rightarrow> clone_dat" where
  "table_of ps =
     \<lparr>all_clone = map fst ps,
      all_chrom = map (\<lambda>p. chrom (snd p)) ps,
      all_start = map (\<lambda>p. start (snd p)) ps,
      all_end = map (\<lambda>p. end_pos (snd p) - 1) ps,
      all_name = map (\<lambda>p. name (snd p)) ps,
      all_cn_ale0 = map (\<lambda>p. cn_ale0 (snd p)) ps,
      all_cn_ale1 = map (\<lambda>p. cn_ale1 (snd p)) ps\<rparr>"

definition line_of :: "string \<times> CNVRegCN \<Rightarrow> cnv_line" where
  "line_of p =
     (chrom (snd p), start (snd p), end_pos (snd p) - 1, name (snd p), fst p,
      cn_ale0 (snd p), cn_ale1 (snd p))"

text \<open>The sort key of a line (clone, then chromosome, then start), and what identifies a
  line apart from its copy numbers.\<close>

definition line_key :: "cnv_line \<Rightarrow> string \<times> string \<times> int" where
  "line_key l =
     (case l of (chrom', start', end', name', clone, cn0, cn1) \<Rightarrow> (clone, chrom', start'))"




text \<open>Concrete inputs: one clone's profile after two insertions; a store filled in the
  order B, B, A; three input rows, the second a single base, the third with the key of the
  first and other copy numbers; two rows with one key; three calls, the second one
  rejected.\<close>

definition example_profile :: CNVProfile where
  "example_profile =
     snd (CNVProfile_add_cnv
       (snd (CNVProfile_add_cnv CNVProfile_init ''chr1'' 200 300 ''R2'' 1 1))
       ''chr1'' 100 200 ''R1'' 2 1)"

definition example_store :: CloneCNVProfile where
  "example_store =
     snd (CloneCNVProfile_add_cnv
       (snd (CloneCNVProfile_add_cnv
         (snd (CloneCNVProfile_add_cnv CloneCNVProfile_init ''chr1'' 200 300 ''R2'' 1 1 ''B''))
         ''chr1'' 100 200 ''R1'' 2 1 ''B''))
       ''chr1'' 100 200 ''R1'' 2 0 ''A'')"



definition example_calls :: "add_cnv_args list" where
  "example_calls =
     [(''chr1'', 200, 300, ''R2'', 1, 1, ''B''),
      (''chr1'', 0, 10, ''R0'', 1, 1, ''A''),
      (''chr1'', 200, 300, ''R2'', 4, 4, ''B'')]"

section \<open>Properties\<close>

subsection \<open>Insertion, step by step\<close>

lemma CNVProfile_add_cnv_cases:
  "CNVProfile_add_cnv cp c s e n a0 a1 =
     (if \<not> valid_region (CNVRegCN_init c s e n a0 a1) then (- 1, cp)
      else if list_ex (\<lambda>m. same_region m (CNVRegCN_init c s e n a0 a1)) (rs cp) then (1, cp)
      else (0, cp\<lparr>rs := rs cp @ [CNVRegCN_init c s e n a0 a1]\<rparr>))"
  by (simp add: CNVProfile_add_cnv_def RegionSet_add_def Let_def)

lemma add_cnv_entry_present:
  "fmlookup (if clone_id |\<notin>| fmdom m then fmupd clone_id CNVProfile_init m else m) clone_id
     \<noteq> None"
  by (auto simp: fmlookup_dom_iff)

lemma clone_add_dat:
  "dat (snd (CloneCNVProfile_add_cnv self c s e n a0 a1 cid)) =
     fmupd cid (snd (CNVProfile_add_cnv (clone_profile self cid) c s e n a0 a1)) (dat self)"
  by (auto simp: CloneCNVProfile_add_cnv_def clone_profile_def Let_def
      split: prod.split option.split)

lemma clone_add_fst:
  "fst (CloneCNVProfile_add_cnv self c s e n a0 a1 cid) =
     fst (CNVProfile_add_cnv (clone_profile self cid) c s e n a0 a1)"
  by (auto simp: CloneCNVProfile_add_cnv_def clone_profile_def Let_def
      split: prod.split option.split)

lemma clone_add_snd:
  "snd (CloneCNVProfile_add_cnv self c s e n a0 a1 cid) =
     self\<lparr>dat := fmupd cid (snd (CNVProfile_add_cnv (clone_profile self cid) c s e n a0 a1))
       (dat self)\<rparr>"
  by (auto simp: CloneCNVProfile_add_cnv_def clone_profile_def Let_def
      split: prod.split option.split)

lemma clone_profile_add:
  "clone_profile (snd (CloneCNVProfile_add_cnv self c s e n a0 a1 cid)) k =
     (if k = cid then snd (CNVProfile_add_cnv (clone_profile self cid) c s e n a0 a1)
      else clone_profile self k)"
  by (simp add: clone_add_dat clone_profile_def)

lemma CNVProfile_add_cnv_rejected:
  "fst (CNVProfile_add_cnv p c s e n a0 a1) \<noteq> 0 \<Longrightarrow> snd (CNVProfile_add_cnv p c s e n a0 a1) = p"
  by (simp add: CNVProfile_add_cnv_cases split: if_splits)

lemma rejected_profiles:
  "fst (CloneCNVProfile_add_cnv self c s e n a0 a1 cid) \<noteq> 0 \<Longrightarrow>
     clone_profile (snd (CloneCNVProfile_add_cnv self c s e n a0 a1 cid)) k = clone_profile self k"
  by (simp add: clone_profile_add clone_add_fst CNVProfile_add_cnv_rejected)

lemma same_region_refl_init:
  "same_region m (CNVRegCN_init (chrom m) (start m) (end_pos m) (name m) a0 a1)"
  by (simp add: same_region_def CNVRegCN_init_def)

lemma valid_region_init:
  "valid_region (CNVRegCN_init c s e n a0 a1) \<longleftrightarrow> s < e \<and> 1 \<le> s"
  by (simp add: valid_region_def CNVRegCN_init_def)


subsection \<open>The keys of the store\<close>

lemma sorted_list_of_fset_sorted: "sorted (sorted_list_of_fset S)"
  by (simp add: sorted_list_of_fset.rep_eq)

lemma sorted_list_of_fset_distinct: "distinct (sorted_list_of_fset S)"
  by (simp add: sorted_list_of_fset.rep_eq)

lemma clone_add_dom:
  "fmdom (dat (snd (CloneCNVProfile_add_cnv self c s e n a0 a1 cid))) = finsert cid (fmdom (dat self))"
  by (simp add: clone_add_dat)

lemma add_cnv_calls_dom:
  "fset (fmdom (dat (add_cnv_calls self calls))) = fset (fmdom (dat self)) \<union> call_clone ` set calls"
  by (induction self calls rule: add_cnv_calls.induct) (auto simp: clone_add_dom)

subsection \<open>Reachable profiles hold valid regions only\<close>

lemma reachable_valid:
  "CNVProfile_reachable cp \<Longrightarrow> m \<in> set (rs cp) \<Longrightarrow> valid_region m"
proof (induction rule: CNVProfile_reachable.induct)
  case reach_init
  then show ?case by (simp add: CNVProfile_init_def RegionSet_init_def)
next
  case (reach_add cp c s e n a0 a1)
  then show ?case
    by (auto simp: CNVProfile_add_cnv_cases split: if_splits)
qed

subsection \<open>The export as a list of clone and region pairs\<close>

lemma get_all_loop_maps:
  "get_all_loop regs d =
     \<lparr>dat_chrom = dat_chrom d @ map chrom regs,
      dat_start = dat_start d @ map start regs,
      dat_end = dat_end d @ map (\<lambda>m. end_pos m - 1) regs,
      dat_name = dat_name d @ map name regs,
      dat_cn_ale0 = dat_cn_ale0 d @ map cn_ale0 regs,
      dat_cn_ale1 = dat_cn_ale1 d @ map cn_ale1 regs\<rparr>"
  by (induction regs arbitrary: d) simp_all

lemma CNVProfile_get_all_maps:
  "CNVProfile_get_all cp =
     \<lparr>dat_chrom = map chrom (RegionSet_get_regions (rs cp) True),
      dat_start = map start (RegionSet_get_regions (rs cp) True),
      dat_end = map (\<lambda>m. end_pos m - 1) (RegionSet_get_regions (rs cp) True),
      dat_name = map name (RegionSet_get_regions (rs cp) True),
      dat_cn_ale0 = map cn_ale0 (RegionSet_get_regions (rs cp) True),
      dat_cn_ale1 = map cn_ale1 (RegionSet_get_regions (rs cp) True)\<rparr>"
  by (simp add: CNVProfile_get_all_def Let_def get_all_loop_maps)

lemma table_of_append_block:
  "\<lparr>all_clone = all_clone (table_of ps) @ replicate (length regs) k,
    all_chrom = all_chrom (table_of ps) @ map chrom regs,
    all_start = all_start (table_of ps) @ map start regs,
    all_end = all_end (table_of ps) @ map (\<lambda>m. end_pos m - 1) regs,
    all_name = all_name (table_of ps) @ map name regs,
    all_cn_ale0 = all_cn_ale0 (table_of ps) @ map cn_ale0 regs,
    all_cn_ale1 = all_cn_ale1 (table_of ps) @ map cn_ale1 regs\<rparr>
   = table_of (ps @ map (Pair k) regs)"
  by (simp add: table_of_def comp_def map_replicate_const)

lemma export_pairs_Nil: "export_pairs self [] = []"
  by (simp add: export_pairs_def)

lemma export_pairs_Cons:
  "export_pairs self (k # ks) = map (Pair k) (sorted_regions self k) @ export_pairs self ks"
  by (simp add: export_pairs_def)

lemma clone_get_all_loop_table:
  "set ks \<subseteq> fset (fmdom (dat self)) \<Longrightarrow>
     clone_get_all_loop self ks (table_of ps) = Inr (table_of (ps @ export_pairs self ks))"
proof (induction ks arbitrary: ps)
  case Nil
  then show ?case by (simp add: export_pairs_Nil)
next
  case (Cons k ks)
  then obtain cp where cp: "fmlookup (dat self) k = Some cp"
    by (auto simp: fmlookup_dom_iff)
  then have regs: "sorted_regions self k = RegionSet_get_regions (rs cp) True"
    by (simp add: sorted_regions_def clone_profile_def)
  from Cons.prems have sub: "set ks \<subseteq> fset (fmdom (dat self))"
    by simp
  show ?case
    using cp Cons.IH [OF sub, of "ps @ map (Pair k) (sorted_regions self k)"]
    by (simp add: CNVProfile_get_all_maps Let_def table_of_append_block regs export_pairs_Cons)
qed

lemma table_of_Nil:
  "\<lparr>all_clone = [], all_chrom = [], all_start = [], all_end = [], all_name = [],
    all_cn_ale0 = [], all_cn_ale1 = []\<rparr> = table_of []"
  by (simp add: table_of_def)

lemma CloneCNVProfile_get_all_table:
  "CloneCNVProfile_get_all self =
     Inr (table_of (export_pairs self (CloneCNVProfile_get_clones self)))"
  unfolding CloneCNVProfile_get_all_def CloneCNVProfile_get_clones_def table_of_Nil
  using clone_get_all_loop_table [of "sorted_list_of_fset (fmdom (dat self))" self "[]"]
  by simp

lemma save_lines_table: "save_lines (table_of ps) = map line_of ps"
  by (rule nth_equalityI) (simp_all add: save_lines_def save_line_def table_of_def line_of_def)

lemma all_clone_table: "all_clone (table_of ps) = map fst ps"
  by (simp add: table_of_def)






subsection \<open>Round trip of the coordinates\<close>






















subsection \<open>Order of the export\<close>

lemma line_key_line_of: "line_key (line_of (k, m)) = (k, chrom m, start m)"
  by (simp add: line_key_def line_of_def)

lemma sorted_block:
  "sorted (map line_key (map line_of (map (Pair k) (sorted_regions self k))))"
proof -
  have "sorted (map (\<lambda>m. (chrom m, start m)) (sorted_regions self k))"
    by (simp add: sorted_regions_def RegionSet_get_regions_def)
  then have "sorted (map (\<lambda>m. (k, chrom m, start m)) (sorted_regions self k))"
    by (simp add: sorted_map sorted_wrt_iff_nth_less)
  then show ?thesis
    by (simp add: comp_def line_key_line_of)
qed

lemma export_pairs_fst: "p \<in> set (export_pairs self ks) \<Longrightarrow> fst p \<in> set ks"
  by (auto simp: export_pairs_def)

lemma sorted_map_fst:
  "sorted (map f xs) \<Longrightarrow> sorted (map (\<lambda>x. fst (f x)) xs)"
  by (induction xs) (auto simp: less_eq_prod_def less_imp_le)

lemma sorted_export_pairs:
  "sorted ks \<Longrightarrow> distinct ks \<Longrightarrow> sorted (map line_key (map line_of (export_pairs self ks)))"
proof (induction ks)
  case Nil
  then show ?case by (simp add: export_pairs_Nil)
next
  case (Cons k ks)
  have cross: "line_key (line_of (k, m)) \<le> line_key (line_of p)"
    if "p \<in> set (export_pairs self ks)" for m p
  proof -
    from that have "fst p \<in> set ks" by (rule export_pairs_fst)
    with Cons.prems have "k < fst p" by (auto simp: le_less)
    then show ?thesis
      by (cases p) (auto simp: line_key_line_of less_eq_prod_def)
  qed
  from Cons show ?case
    using sorted_block [of k self] cross
    by (auto simp: export_pairs_Cons sorted_append)
qed

text \<open>
  Claim C2. For every store, \<open>CloneCNVProfile.get_all\<close> returns (it never raises
  KeyError), the clone column is in ascending order, and the lines are in ascending order
  of (clone, chrom, start), strings compared lexically: clone-major, and within a clone
  by chromosome, then start.
\<close>

theorem export_order:
  "\<exists>cp. CloneCNVProfile_get_all self = Inr cp
     \<and> sorted (all_clone cp)
     \<and> sorted (map line_key (save_lines cp))"
proof -
  let ?ps = "export_pairs self (CloneCNVProfile_get_clones self)"
  have s: "sorted (CloneCNVProfile_get_clones self)"
    by (simp add: CloneCNVProfile_get_clones_def sorted_list_of_fset_sorted)
  then have a: "sorted (map line_key (map line_of ?ps))"
    by (rule sorted_export_pairs)
      (simp add: CloneCNVProfile_get_clones_def sorted_list_of_fset_distinct)
  from a have "sorted (map (\<lambda>p. line_key (line_of p)) ?ps)"
    by (simp add: comp_def)
  then have "sorted (map (\<lambda>p. fst (line_key (line_of p))) ?ps)"
    by (rule sorted_map_fst)
  then have b: "sorted (map fst ?ps)"
    by (simp add: line_key_def line_of_def)
  show ?thesis
    using a b by (simp add: CloneCNVProfile_get_all_table save_lines_table all_clone_table)
qed

theorem export_order_witness:
  "\<exists>cp. CloneCNVProfile_get_all example_store = Inr cp
     \<and> save_lines cp =
         [(''chr1'', 100, 199, ''R1'', ''A'', 2, 0), (''chr1'', 100, 199, ''R1'', ''B'', 2, 1),
          (''chr1'', 200, 299, ''R2'', ''B'', 1, 1)]
     \<and> sorted (all_clone cp) \<and> sorted (map line_key (save_lines cp))"
proof -
  have s: "save_cnv_profile example_store =
      Inr [(''chr1'', 100, 199, ''R1'', ''A'', 2, 0), (''chr1'', 100, 199, ''R1'', ''B'', 2, 1),
          (''chr1'', 200, 299, ''R2'', ''B'', 1, 1)]"
    by code_simp
  from export_order [of example_store] obtain cp where
    h: "CloneCNVProfile_get_all example_store = Inr cp" "sorted (all_clone cp)"
      "sorted (map line_key (save_lines cp))"
    by blast
  from s h(1) have "save_lines cp =
      [(''chr1'', 100, 199, ''R1'', ''A'', 2, 0), (''chr1'', 100, 199, ''R1'', ''B'', 2, 1),
          (''chr1'', 200, 299, ''R2'', ''B'', 1, 1)]"
    by (simp add: save_cnv_profile_def)
  with h show ?thesis
    by blast
qed

subsection \<open>Rejected insertions\<close>

lemma clone_fetch_profile:
  "CloneCNVProfile_fetch self qc qs qe b = CNVProfile_fetch (clone_profile self b) qc qs qe"
  by (simp add: CloneCNVProfile_fetch_def clone_profile_def CNVProfile_fetch_def
      CNVProfile_init_def RegionSet_init_def RegionSet_fetch_def split: option.split)

lemma clone_query_profile:
  "CloneCNVProfile_query self qn b = CNVProfile_query (clone_profile self b) qn"
  by (simp add: CloneCNVProfile_query_def clone_profile_def CNVProfile_query_def
      CNVProfile_init_def RegionSet_init_def RegionSet_query_def split: option.split)

lemma export_pairs_cong:
  "(\<And>k. clone_profile a k = clone_profile b k) \<Longrightarrow> export_pairs a ks = export_pairs b ks"
  by (simp add: export_pairs_def sorted_regions_def)

lemma sorted_regions_absent:
  "k |\<notin>| fmdom (dat self) \<Longrightarrow> sorted_regions self k = []"
  by (simp add: sorted_regions_def clone_profile_def fmdom_notD CNVProfile_init_def
      RegionSet_init_def RegionSet_get_regions_def)

lemma export_pairs_insort:
  "sorted_regions self k = [] \<Longrightarrow> export_pairs self (insort k ks) = export_pairs self ks"
  by (induction ks) (simp_all add: export_pairs_Cons export_pairs_Nil)

lemma get_clones_add:
  "CloneCNVProfile_get_clones (snd (CloneCNVProfile_add_cnv self c s e n a0 a1 cid)) =
     (if cid |\<in>| fmdom (dat self) then CloneCNVProfile_get_clones self
      else insort cid (CloneCNVProfile_get_clones self))"
proof (cases "cid |\<in>| fmdom (dat self)")
  case True
  then have "finsert cid (fmdom (dat self)) = fmdom (dat self)"
    by auto
  with True show ?thesis
    by (simp add: CloneCNVProfile_get_clones_def clone_add_dom)
next
  case False
  then have "cid \<notin> fset (fmdom (dat self))"
    by simp
  then have "sorted_list_of_set (insert cid (fset (fmdom (dat self))))
      = insort cid (sorted_list_of_set (fset (fmdom (dat self))))"
    by simp
  with False show ?thesis
    by (simp add: CloneCNVProfile_get_clones_def clone_add_dom sorted_list_of_fset.rep_eq)
qed

lemma rejected_get_all:
  assumes "fst (CloneCNVProfile_add_cnv self c s e n a0 a1 cid) \<noteq> 0"
  shows "CloneCNVProfile_get_all (snd (CloneCNVProfile_add_cnv self c s e n a0 a1 cid))
     = CloneCNVProfile_get_all self"
proof -
  let ?s' = "snd (CloneCNVProfile_add_cnv self c s e n a0 a1 cid)"
  have "export_pairs ?s' (CloneCNVProfile_get_clones ?s')
      = export_pairs self (CloneCNVProfile_get_clones ?s')"
    by (rule export_pairs_cong) (rule rejected_profiles [OF assms])
  also have "\<dots> = export_pairs self (CloneCNVProfile_get_clones self)"
    by (simp add: get_clones_add export_pairs_insort sorted_regions_absent)
  finally show ?thesis
    by (simp add: CloneCNVProfile_get_all_table)
qed

lemma fmupd_same: "fmlookup m k = Some v \<Longrightarrow> fmupd k v m = m"
  by (rule fmap_ext) auto

lemma rejected_known_clone:
  assumes "fst (CloneCNVProfile_add_cnv self c s e n a0 a1 cid) \<noteq> 0"
    and "cid |\<in>| fmdom (dat self)"
  shows "snd (CloneCNVProfile_add_cnv self c s e n a0 a1 cid) = self"
proof -
  from assms(2) obtain p where p: "fmlookup (dat self) cid = Some p"
    by (auto simp: fmlookup_dom_iff)
  then have cp: "clone_profile self cid = p"
    by (simp add: clone_profile_def)
  from assms(1) have "snd (CNVProfile_add_cnv p c s e n a0 a1) = p"
    by (simp add: clone_add_fst cp CNVProfile_add_cnv_rejected)
  with p cp show ?thesis
    by (simp add: clone_add_snd fmupd_same)
qed

lemma duplicate_known_clone:
  assumes "fst (CloneCNVProfile_add_cnv self c s e n a0 a1 cid) = 1"
  shows "cid |\<in>| fmdom (dat self)"
proof (rule ccontr)
  assume "cid |\<notin>| fmdom (dat self)"
  then have "rs (clone_profile self cid) = []"
    by (simp add: clone_profile_def fmdom_notD CNVProfile_init_def RegionSet_init_def)
  with assms show False
    by (simp add: clone_add_fst CNVProfile_add_cnv_cases split: if_splits)
qed

text \<open>
  Claim C3, as stated, fails: an insertion that is rejected with -1 under a clone ID the
  store does not know yet leaves that clone ID in the store, with an empty profile, so
  \<open>get_clones\<close> changes from \<open>[]\<close> to \<open>[''A'']\<close> here.
\<close>

theorem rejected_insert_counterexample:
  "fst (CloneCNVProfile_add_cnv CloneCNVProfile_init ''chr1'' 0 10 ''R1'' 2 1 ''A'') = - 1
   \<and> CloneCNVProfile_get_clones CloneCNVProfile_init = []
   \<and> CloneCNVProfile_get_clones
        (snd (CloneCNVProfile_add_cnv CloneCNVProfile_init ''chr1'' 0 10 ''R1'' 2 1 ''A''))
       = [''A'']
   \<and> snd (CloneCNVProfile_add_cnv CloneCNVProfile_init ''chr1'' 0 10 ''R1'' 2 1 ''A'')
       \<noteq> CloneCNVProfile_init"
proof -
  have a: "fst (CloneCNVProfile_add_cnv CloneCNVProfile_init ''chr1'' 0 10 ''R1'' 2 1 ''A'') = - 1"
    by code_simp
  have b: "CloneCNVProfile_get_clones CloneCNVProfile_init = []"
    by code_simp
  have c: "CloneCNVProfile_get_clones
        (snd (CloneCNVProfile_add_cnv CloneCNVProfile_init ''chr1'' 0 10 ''R1'' 2 1 ''A''))
       = [''A'']"
    by code_simp
  from b c have "snd (CloneCNVProfile_add_cnv CloneCNVProfile_init ''chr1'' 0 10 ''R1'' 2 1 ''A'')
       \<noteq> CloneCNVProfile_init"
    by auto
  with a b c show ?thesis
    by blast
qed

text \<open>
  Claim C3, amended. For every store and every \<open>CloneCNVProfile.add_cnv\<close> call that
  returns -1 or 1, no region is added: every \<open>fetch\<close>, every \<open>query\<close> and \<open>get_all\<close>
  give what they gave before. When the clone ID was already in the store, and always
  when the code is 1, the store is the one before the call. When the clone ID was not in
  the store, \<open>get_clones\<close> lists it in addition.
\<close>

theorem rejected_insert_frame:
  "fst (CloneCNVProfile_add_cnv self c s e n a0 a1 cid) = - 1
     \<or> fst (CloneCNVProfile_add_cnv self c s e n a0 a1 cid) = 1 \<Longrightarrow>
   (\<forall>qc qs qe b.
       CloneCNVProfile_fetch (snd (CloneCNVProfile_add_cnv self c s e n a0 a1 cid)) qc qs qe b
         = CloneCNVProfile_fetch self qc qs qe b)
   \<and> (\<forall>qn b.
       CloneCNVProfile_query (snd (CloneCNVProfile_add_cnv self c s e n a0 a1 cid)) qn b
         = CloneCNVProfile_query self qn b)
   \<and> CloneCNVProfile_get_all (snd (CloneCNVProfile_add_cnv self c s e n a0 a1 cid))
        = CloneCNVProfile_get_all self
   \<and> (cid |\<in>| fmdom (dat self) \<longrightarrow>
        snd (CloneCNVProfile_add_cnv self c s e n a0 a1 cid) = self)
   \<and> (fst (CloneCNVProfile_add_cnv self c s e n a0 a1 cid) = 1 \<longrightarrow>
        snd (CloneCNVProfile_add_cnv self c s e n a0 a1 cid) = self)
   \<and> (cid |\<notin>| fmdom (dat self) \<longrightarrow>
        CloneCNVProfile_get_clones (snd (CloneCNVProfile_add_cnv self c s e n a0 a1 cid))
          = insort cid (CloneCNVProfile_get_clones self))"
proof -
  assume "fst (CloneCNVProfile_add_cnv self c s e n a0 a1 cid) = - 1
     \<or> fst (CloneCNVProfile_add_cnv self c s e n a0 a1 cid) = 1"
  then have rej: "fst (CloneCNVProfile_add_cnv self c s e n a0 a1 cid) \<noteq> 0"
    by auto
  show ?thesis
  proof (intro conjI allI impI)
    fix qc qs qe b
    show "CloneCNVProfile_fetch (snd (CloneCNVProfile_add_cnv self c s e n a0 a1 cid)) qc qs qe b
         = CloneCNVProfile_fetch self qc qs qe b"
      by (simp add: clone_fetch_profile rejected_profiles [OF rej])
  next
    fix qn b
    show "CloneCNVProfile_query (snd (CloneCNVProfile_add_cnv self c s e n a0 a1 cid)) qn b
         = CloneCNVProfile_query self qn b"
      by (simp add: clone_query_profile rejected_profiles [OF rej])
  next
    show "CloneCNVProfile_get_all (snd (CloneCNVProfile_add_cnv self c s e n a0 a1 cid))
        = CloneCNVProfile_get_all self"
      by (rule rejected_get_all [OF rej])
  next
    assume "cid |\<in>| fmdom (dat self)"
    then show "snd (CloneCNVProfile_add_cnv self c s e n a0 a1 cid) = self"
      by (rule rejected_known_clone [OF rej])
  next
    assume d: "fst (CloneCNVProfile_add_cnv self c s e n a0 a1 cid) = 1"
    from rejected_known_clone [OF rej duplicate_known_clone [OF d]]
    show "snd (CloneCNVProfile_add_cnv self c s e n a0 a1 cid) = self" .
  next
    assume "cid |\<notin>| fmdom (dat self)"
    then show "CloneCNVProfile_get_clones (snd (CloneCNVProfile_add_cnv self c s e n a0 a1 cid))
          = insort cid (CloneCNVProfile_get_clones self)"
      by (simp add: get_clones_add)
  qed
qed

theorem rejected_insert_frame_witness:
  "fst (CloneCNVProfile_add_cnv example_store ''chr1'' 100 200 ''R1'' 9 9 ''B'') = 1
   \<and> snd (CloneCNVProfile_add_cnv example_store ''chr1'' 100 200 ''R1'' 9 9 ''B'') = example_store
   \<and> fst (CloneCNVProfile_add_cnv example_store ''chr1'' 0 10 ''R9'' 1 1 ''C'') = - 1
   \<and> CloneCNVProfile_get_all (snd (CloneCNVProfile_add_cnv example_store ''chr1'' 0 10 ''R9'' 1 1 ''C''))
       = CloneCNVProfile_get_all example_store
   \<and> CloneCNVProfile_get_clones
        (snd (CloneCNVProfile_add_cnv example_store ''chr1'' 0 10 ''R9'' 1 1 ''C''))
       = [''A'', ''B'', ''C'']"
proof -
  have dup: "fst (CloneCNVProfile_add_cnv example_store ''chr1'' 100 200 ''R1'' 9 9 ''B'') = 1"
    by code_simp
  have inv: "fst (CloneCNVProfile_add_cnv example_store ''chr1'' 0 10 ''R9'' 1 1 ''C'') = - 1"
    by code_simp
  have new: "''C'' |\<notin>| fmdom (dat example_store)"
    by code_simp
  have old: "CloneCNVProfile_get_clones example_store = [''A'', ''B'']"
    by code_simp
  from rejected_insert_frame [OF disjI2, OF dup] dup
  have a: "snd (CloneCNVProfile_add_cnv example_store ''chr1'' 100 200 ''R1'' 9 9 ''B'')
      = example_store"
    by blast
  from rejected_insert_frame [OF disjI1, OF inv] new
  have b: "CloneCNVProfile_get_all
        (snd (CloneCNVProfile_add_cnv example_store ''chr1'' 0 10 ''R9'' 1 1 ''C''))
       = CloneCNVProfile_get_all example_store"
    and c: "CloneCNVProfile_get_clones
        (snd (CloneCNVProfile_add_cnv example_store ''chr1'' 0 10 ''R9'' 1 1 ''C''))
       = insort ''C'' (CloneCNVProfile_get_clones example_store)"
    by blast+
  from c old have "CloneCNVProfile_get_clones
        (snd (CloneCNVProfile_add_cnv example_store ''chr1'' 0 10 ''R9'' 1 1 ''C''))
       = [''A'', ''B'', ''C'']"
    by simp
  with dup inv a b show ?thesis
    by blast
qed

subsection \<open>Queries on an unknown clone\<close>

text \<open>
  Claim C4. For every store and every clone ID that is not a key of the store,
  \<open>CloneCNVProfile.fetch\<close> and \<open>CloneCNVProfile.query\<close> return the count 0 and the empty
  list, whatever the chromosome, the coordinates and the name asked for.
\<close>

theorem unknown_clone_empty:
  "clone_id |\<notin>| fmdom (dat self) \<Longrightarrow>
     CloneCNVProfile_fetch self chrom' start' end' clone_id = (0, [])
     \<and> CloneCNVProfile_query self name' clone_id = (0, [])"
  by (simp add: CloneCNVProfile_fetch_def CloneCNVProfile_query_def fmdom_notD)

theorem unknown_clone_empty_witness:
  "''C'' |\<notin>| fmdom (dat example_store)
   \<and> CloneCNVProfile_fetch example_store ''chr1'' 150 250 ''C'' = (0, [])
   \<and> CloneCNVProfile_query example_store ''R1'' ''C'' = (0, [])
   \<and> CloneCNVProfile_fetch example_store ''chr1'' 150 250 ''B'' \<noteq> (0, [])"
proof -
  have h: "''C'' |\<notin>| fmdom (dat example_store)"
    by code_simp
  have nonempty: "CloneCNVProfile_fetch example_store ''chr1'' 150 250 ''B'' \<noteq> (0, [])"
    by code_simp
  from h nonempty unknown_clone_empty [OF h] show ?thesis
    by blast
qed

subsection \<open>Duplicate insertion\<close>

text \<open>
  Claim C5. For every reachable state of a clone's profile and every member of it, an
  insertion with the member's chromosome, start, end and name, whatever the copy
  numbers, returns the code 1 and leaves the profile as it was.
\<close>

theorem duplicate_rejected:
  "CNVProfile_reachable cp \<Longrightarrow> m \<in> set (rs cp) \<Longrightarrow>
     CNVProfile_add_cnv cp (chrom m) (start m) (end_pos m) (name m) a0 a1 = (1, cp)"
proof -
  assume r: "CNVProfile_reachable cp" and m: "m \<in> set (rs cp)"
  from reachable_valid [OF r m] have "start m < end_pos m \<and> 1 \<le> start m"
    by (simp add: valid_region_def)
  then have v: "valid_region (CNVRegCN_init (chrom m) (start m) (end_pos m) (name m) a0 a1)"
    by (simp add: valid_region_init)
  from m have "list_ex (\<lambda>x. same_region x
      (CNVRegCN_init (chrom m) (start m) (end_pos m) (name m) a0 a1)) (rs cp)"
    unfolding list_ex_iff using same_region_refl_init by blast
  with v show ?thesis
    by (simp add: CNVProfile_add_cnv_cases)
qed

theorem duplicate_rejected_witness:
  "CNVProfile_add_cnv example_profile ''chr1'' 100 200 ''R1'' 7 0 = (1, example_profile)
   \<and> length (rs example_profile) = 2"
proof -
  have r: "CNVProfile_reachable example_profile"
    unfolding example_profile_def by (intro reach_add reach_init)
  have m: "\<lparr>chrom = ''chr1'', start = 100, end_pos = 200, name = ''R1'', cn_ale0 = 2,
      cn_ale1 = 1\<rparr> \<in> set (rs example_profile)"
    by code_simp
  have n: "length (rs example_profile) = 2"
    by code_simp
  from duplicate_rejected [OF r m, of 7 0] n show ?thesis
    by simp
qed

subsection \<open>Rejected geometry\<close>

text \<open>
  Claim C6. For every state of a clone's profile, an insertion whose coordinates violate
  \<open>start < end\<close> (a zero-length region, say) or \<open>start \<ge> 1\<close> (\<open>start = 0\<close>, say) returns
  the code -1 and leaves the profile as it was: no region is added.
\<close>

theorem geometry_rejected:
  "\<not> (start' < end' \<and> 1 \<le> start') \<Longrightarrow>
     CNVProfile_add_cnv cp chrom' start' end' name' a0 a1 = (- 1, cp)"
  by (simp add: CNVProfile_add_cnv_cases valid_region_def CNVRegCN_init_def)

theorem geometry_rejected_witness:
  "CNVProfile_add_cnv example_profile ''chr1'' 100 100 ''R3'' 2 1 = (- 1, example_profile)
   \<and> CNVProfile_add_cnv example_profile ''chr1'' 0 10 ''R3'' 2 1 = (- 1, example_profile)
   \<and> length (rs example_profile) = 2"
proof -
  have n: "length (rs example_profile) = 2"
    by code_simp
  from n geometry_rejected [of 100 100 example_profile "''chr1''" "''R3''" 2 1]
    geometry_rejected [of 0 10 example_profile "''chr1''" "''R3''" 2 1]
  show ?thesis
    by simp
qed

subsection \<open>Overlap queries\<close>

lemma intervals_meet:
  "max s qs < min e qe \<longleftrightarrow> {s ..< e} \<inter> {qs ..< qe} \<noteq> ({} :: int set)"
  by auto

text \<open>
  Claim C7. For every state and query, \<open>CNVProfile.fetch\<close> returns exactly the members on
  the query's chromosome whose half-open interval \<open>[start, end)\<close> has a position in
  common with \<open>[query_start, query_end)\<close> (as a multiset: their order is not specified).
  For a reachable state and a query with \<open>query_start < query_end\<close>, these are the members
  with \<open>member.start < query_end\<close> and \<open>query_start < member.end\<close>. A zero-length query
  returns \<open>(0, [])\<close>, and so does a query on a chromosome that is absent.
\<close>

theorem fetch_overlap:
  "mset (snd (CNVProfile_fetch cp qc qs qe)) =
     image_mset (\<lambda>m. (cn_ale0 m, cn_ale1 m, name m))
       (filter_mset (\<lambda>m. chrom m = qc \<and> {start m ..< end_pos m} \<inter> {qs ..< qe} \<noteq> {})
          (mset (rs cp)))
   \<and> (CNVProfile_reachable cp \<and> qs < qe \<longrightarrow>
        mset (snd (CNVProfile_fetch cp qc qs qe)) =
          image_mset (\<lambda>m. (cn_ale0 m, cn_ale1 m, name m))
            (filter_mset (\<lambda>m. chrom m = qc \<and> start m < qe \<and> qs < end_pos m) (mset (rs cp))))
   \<and> CNVProfile_fetch cp qc qs qs = (0, [])
   \<and> (qc \<notin> chrom ` set (rs cp) \<longrightarrow> CNVProfile_fetch cp qc qs qe = (0, []))"
proof (intro conjI impI)
  show f: "mset (snd (CNVProfile_fetch cp qc qs qe)) =
     image_mset (\<lambda>m. (cn_ale0 m, cn_ale1 m, name m))
       (filter_mset (\<lambda>m. chrom m = qc \<and> {start m ..< end_pos m} \<inter> {qs ..< qe} \<noteq> {})
          (mset (rs cp)))"
    unfolding intervals_meet [symmetric]
    by (simp add: CNVProfile_fetch_def RegionSet_fetch_def Let_def)
  show "mset (snd (CNVProfile_fetch cp qc qs qe)) =
          image_mset (\<lambda>m. (cn_ale0 m, cn_ale1 m, name m))
            (filter_mset (\<lambda>m. chrom m = qc \<and> start m < qe \<and> qs < end_pos m) (mset (rs cp)))"
    if h: "CNVProfile_reachable cp \<and> qs < qe"
  proof -
    have "(max (start m) qs < min (end_pos m) qe) \<longleftrightarrow> (start m < qe \<and> qs < end_pos m)"
      if "m \<in># mset (rs cp)" for m
    proof -
      from that h reachable_valid have "start m < end_pos m"
        by (auto simp: valid_region_def)
      with h show ?thesis
        by auto
    qed
    then have "filter_mset (\<lambda>m. chrom m = qc \<and> max (start m) qs < min (end_pos m) qe)
        (mset (rs cp))
      = filter_mset (\<lambda>m. chrom m = qc \<and> start m < qe \<and> qs < end_pos m) (mset (rs cp))"
      by (intro filter_mset_cong) auto
    then show ?thesis
      by (simp add: CNVProfile_fetch_def RegionSet_fetch_def Let_def)
  qed
  show "CNVProfile_fetch cp qc qs qs = (0, [])"
    by (auto simp: CNVProfile_fetch_def RegionSet_fetch_def Let_def filter_empty_conv)
  show "CNVProfile_fetch cp qc qs qe = (0, [])" if "qc \<notin> chrom ` set (rs cp)"
    using that by (auto simp: CNVProfile_fetch_def RegionSet_fetch_def Let_def filter_empty_conv)
qed

theorem fetch_overlap_witness:
  "CNVProfile_fetch example_profile ''chr2'' 150 250 = (0, [])
   \<and> CNVProfile_fetch example_profile ''chr1'' 200 200 = (0, [])
   \<and> mset (snd (CNVProfile_fetch example_profile ''chr1'' 150 250))
       = {#(2, 1, ''R1''), (1, 1, ''R2'')#}"
proof -
  have rsv: "rs example_profile =
      [\<lparr>chrom = ''chr1'', start = 200, end_pos = 300, name = ''R2'', cn_ale0 = 1, cn_ale1 = 1\<rparr>,
       \<lparr>chrom = ''chr1'', start = 100, end_pos = 200, name = ''R1'', cn_ale0 = 2, cn_ale1 = 1\<rparr>]"
    by code_simp
  have r: "CNVProfile_reachable example_profile"
    unfolding example_profile_def by (intro reach_add reach_init)
  have a: "''chr2'' \<notin> chrom ` set (rs example_profile)"
    by (simp add: rsv)
  from fetch_overlap [of example_profile "''chr2''" 150 250] a
  have 1: "CNVProfile_fetch example_profile ''chr2'' 150 250 = (0, [])"
    by blast
  from fetch_overlap [of example_profile "''chr1''" 200 250]
  have 2: "CNVProfile_fetch example_profile ''chr1'' 200 200 = (0, [])"
    by blast
  have lt: "(150 :: int) < 250"
    by simp
  from fetch_overlap [of example_profile "''chr1''" 150 250] r lt
  have "mset (snd (CNVProfile_fetch example_profile ''chr1'' 150 250))
       = image_mset (\<lambda>m. (cn_ale0 m, cn_ale1 m, name m))
            (filter_mset (\<lambda>m. chrom m = ''chr1'' \<and> start m < 250 \<and> 150 < end_pos m)
               (mset (rs example_profile)))"
    by blast
  then have 3: "mset (snd (CNVProfile_fetch example_profile ''chr1'' 150 250))
       = {#(2, 1, ''R1''), (1, 1, ''R2'')#}"
    by (simp add: rsv)
  from 1 2 3 show ?thesis
    by blast
qed

subsection \<open>Clone isolation\<close>

text \<open>
  Claim C8. For every store, an insertion under clone ID A changes no \<open>fetch\<close> and no
  \<open>query\<close> scoped to a different clone ID B, whatever the inserted chromosome,
  coordinates and name are (also when they coincide with a region of B): the entry of B
  in the dictionary is the same profile before and after.
\<close>

theorem clone_isolation:
  "clone_b \<noteq> clone_a \<Longrightarrow>
     CloneCNVProfile_fetch (snd (CloneCNVProfile_add_cnv self c s e n a0 a1 clone_a))
         qc qs qe clone_b
       = CloneCNVProfile_fetch self qc qs qe clone_b
     \<and> CloneCNVProfile_query (snd (CloneCNVProfile_add_cnv self c s e n a0 a1 clone_a))
         qn clone_b
       = CloneCNVProfile_query self qn clone_b
     \<and> fmlookup (dat (snd (CloneCNVProfile_add_cnv self c s e n a0 a1 clone_a))) clone_b
       = fmlookup (dat self) clone_b"
  by (simp add: CloneCNVProfile_fetch_def CloneCNVProfile_query_def clone_add_dat)

theorem clone_isolation_witness:
  "CloneCNVProfile_fetch
      (snd (CloneCNVProfile_add_cnv example_store ''chr1'' 200 300 ''R2'' 5 5 ''A''))
      ''chr1'' 150 250 ''B''
     = (2, [(1, 1, ''R2''), (2, 1, ''R1'')])
   \<and> CloneCNVProfile_query
      (snd (CloneCNVProfile_add_cnv example_store ''chr1'' 200 300 ''R2'' 5 5 ''A''))
      ''R2'' ''B''
     = (1, [(1, 1, ''R2'')])
   \<and> fst (CloneCNVProfile_add_cnv example_store ''chr1'' 200 300 ''R2'' 5 5 ''A'') = 0"
proof -
  have ne: "''B'' \<noteq> ''A''"
    by simp
  have f: "CloneCNVProfile_fetch example_store ''chr1'' 150 250 ''B''
             = (2, [(1, 1, ''R2''), (2, 1, ''R1'')])"
    by code_simp
  have q: "CloneCNVProfile_query example_store ''R2'' ''B'' = (1, [(1, 1, ''R2'')])"
    by code_simp
  have r: "fst (CloneCNVProfile_add_cnv example_store ''chr1'' 200 300 ''R2'' 5 5 ''A'') = 0"
    by code_simp
  from clone_isolation [OF ne, of example_store "''chr1''" 200 300 "''R2''" 5 5
      "''chr1''" 150 250 "''R2''"] f q r
  show ?thesis
    by simp
qed

subsection \<open>Listing the clones\<close>

text \<open>
  Claim C9. After any sequence of \<open>add_cnv\<close> calls on a new store, \<open>get_clones\<close> returns
  the clone IDs of the calls, whatever the calls returned, in ascending order and each
  one once.
\<close>

theorem get_clones_listing:
  "sorted (CloneCNVProfile_get_clones (add_cnv_calls CloneCNVProfile_init calls))
   \<and> distinct (CloneCNVProfile_get_clones (add_cnv_calls CloneCNVProfile_init calls))
   \<and> set (CloneCNVProfile_get_clones (add_cnv_calls CloneCNVProfile_init calls))
       = call_clone ` set calls"
  by (simp add: CloneCNVProfile_get_clones_def sorted_list_of_fset_sorted
      sorted_list_of_fset_distinct add_cnv_calls_dom CloneCNVProfile_init_def)

theorem get_clones_listing_witness:
  "CloneCNVProfile_get_clones (add_cnv_calls CloneCNVProfile_init example_calls) = [''A'', ''B'']
   \<and> set (CloneCNVProfile_get_clones (add_cnv_calls CloneCNVProfile_init example_calls))
       = {''A'', ''B''}
   \<and> fst (CloneCNVProfile_add_cnv CloneCNVProfile_init ''chr1'' 0 10 ''R0'' 1 1 ''A'') = - 1"
proof -
  have l: "CloneCNVProfile_get_clones (add_cnv_calls CloneCNVProfile_init example_calls)
      = [''A'', ''B'']"
    by code_simp
  have r: "fst (CloneCNVProfile_add_cnv CloneCNVProfile_init ''chr1'' 0 10 ''R0'' 1 1 ''A'') = - 1"
    by code_simp
  from get_clones_listing [of example_calls]
  have "set (CloneCNVProfile_get_clones (add_cnv_calls CloneCNVProfile_init example_calls))
      = call_clone ` set example_calls"
    by blast
  then have "set (CloneCNVProfile_get_clones (add_cnv_calls CloneCNVProfile_init example_calls))
      = {''A'', ''B''}"
    by (auto simp: example_calls_def)
  with l r show ?thesis
    by blast
qed

subsection \<open>Counts and lists\<close>

text \<open>
  Claim C10. \<open>CNVProfile.fetch\<close>, \<open>CNVProfile.query\<close>, \<open>CloneCNVProfile.fetch\<close> and
  \<open>CloneCNVProfile.query\<close> each return a pair whose first component is the length of the
  second, for every state and all arguments; so none of them returns the count -1 that
  the docstrings mention.
\<close>

theorem count_is_length:
  "fst (CNVProfile_fetch cp chrom' start' end')
       = int (length (snd (CNVProfile_fetch cp chrom' start' end')))
   \<and> fst (CNVProfile_query cp name') = int (length (snd (CNVProfile_query cp name')))
   \<and> fst (CloneCNVProfile_fetch self chrom' start' end' clone_id)
       = int (length (snd (CloneCNVProfile_fetch self chrom' start' end' clone_id)))
   \<and> fst (CloneCNVProfile_query self name' clone_id)
       = int (length (snd (CloneCNVProfile_query self name' clone_id)))
   \<and> fst (CNVProfile_fetch cp chrom' start' end') \<noteq> - 1
   \<and> fst (CNVProfile_query cp name') \<noteq> - 1
   \<and> fst (CloneCNVProfile_fetch self chrom' start' end' clone_id) \<noteq> - 1
   \<and> fst (CloneCNVProfile_query self name' clone_id) \<noteq> - 1"
  by (simp add: CNVProfile_fetch_def CNVProfile_query_def CloneCNVProfile_fetch_def
      CloneCNVProfile_query_def Let_def split: option.split)

theorem count_is_length_witness:
  "fst (CloneCNVProfile_fetch example_store ''chr1'' 150 250 ''B'') = 2
   \<and> length (snd (CloneCNVProfile_fetch example_store ''chr1'' 150 250 ''B'')) = 2
   \<and> fst (CNVProfile_query example_profile ''R1'') = 1"
proof -
  have f: "snd (CloneCNVProfile_fetch example_store ''chr1'' 150 250 ''B'')
             = [(1, 1, ''R2''), (2, 1, ''R1'')]"
    by code_simp
  have q: "snd (CNVProfile_query example_profile ''R1'') = [(2, 1, ''R1'')]"
    by code_simp
  from count_is_length [of example_profile "''chr1''" 150 250 "''R1''" example_store "''B''"]
    f q
  show ?thesis
    by simp
qed

end
